theory Spec2Isabelle
  imports Complex_Main "HOL-Library.Word"
begin

unbundle bit_operations_syntax

section \<open>Histogram utilities (histogram\_utils.py)\<close>

text \<open>
  A shallow embedding of \<^verbatim>\<open>histogram_utils.py\<close>. Arrays carry their shape next to their
  elements in row-major order. Array elements of a floating type are modelled as exact
  reals: rounding is not part of this model. Every \<^verbatim>\<open>raise\<close> of the source, and every
  exception of a Python or numpy primitive the source calls, is a value \<open>Inl e\<close>.
\<close>

subsection \<open>Errors\<close>

text \<open>
  All exceptions the module raises itself are Python \<^verbatim>\<open>ValueError\<close>s; the message tells
  them apart. The specification calls the four of the parameter check
  \<^verbatim>\<open>InvalidArgument\<close> and the one of the intersection \<^verbatim>\<open>ShapeMismatch\<close>.
\<close>

datatype message =
    MaxEmptySequence                        \<comment> \<open>\<^verbatim>\<open>max()\<close> of an empty list (line 34)\<close>
  | MaxChannelRequested int nat             \<comment> \<open>lines 35-37\<close>
  | LengthOfChannelsAndBins nat nat         \<comment> \<open>lines 39-41\<close>
  | SizeOfRange nat nat                     \<comment> \<open>lines 43-45\<close>
  | ShapeOfMask "nat list" "nat list"       \<comment> \<open>lines 48-50\<close>
  | HistogramsNotSameSize nat nat           \<comment> \<open>lines 76-78\<close>
  | CouldNotBroadcast                       \<comment> \<open>numpy: operand shapes do not fit\<close>
  | ZeroSizeReduction                       \<comment> \<open>numpy: \<^verbatim>\<open>np.max\<close> of an empty array\<close>
  | NegativeDimensions                      \<comment> \<open>numpy: \<^verbatim>\<open>np.zeros\<close> with a negative extent\<close>
  | AmbiguousTruthValue                     \<comment> \<open>numpy: truth value of an array that has not one element\<close>

datatype error =
    ValueError message
  | ZeroDivisionError
  | IndexError
  | LibraryError                            \<comment> \<open>an exception of the external binning routine\<close>

fun is_InvalidArgument :: "error \<Rightarrow> bool" where
  "is_InvalidArgument (ValueError (MaxChannelRequested _ _)) = True"
| "is_InvalidArgument (ValueError (LengthOfChannelsAndBins _ _)) = True"
| "is_InvalidArgument (ValueError (SizeOfRange _ _)) = True"
| "is_InvalidArgument (ValueError (ShapeOfMask _ _)) = True"
| "is_InvalidArgument _ = False"

fun is_ShapeMismatch :: "error \<Rightarrow> bool" where
  "is_ShapeMismatch (ValueError (HistogramsNotSameSize _ _)) = True"
| "is_ShapeMismatch _ = False"

subsection \<open>Arrays\<close>

text \<open>
  An image is a 3-dimensional array (row, column, channel) of unsigned 8-bit samples, a
  mask a 2-dimensional array; an n-dimensional histogram has a list of extents.
\<close>

record 'a array3 =
  dim0 :: nat
  dim1 :: nat
  dim2 :: nat
  data3 :: "'a list"

record 'a array2 =
  rows :: nat
  cols :: nat
  data2 :: "'a list"

record 'a ndarray =
  shape :: "nat list"
  data :: "'a list"

type_synonym image = "8 word array3"
type_synonym mask = "8 word array2"

definition shape3 :: "'a array3 \<Rightarrow> nat list" where
  "shape3 a = [dim0 a, dim1 a, dim2 a]"

definition shape2 :: "'a array2 \<Rightarrow> nat list" where
  "shape2 a = [rows a, cols a]"

text \<open>The result of a floating division of numpy: dividing by zero gives no exception.\<close>

datatype npfloat = Finite real | PosInf | NegInf | NaN

definition np_divide :: "real \<Rightarrow> real \<Rightarrow> npfloat" where
  "np_divide x n =
     (if n \<noteq> 0 then Finite (x / n)
      else if 0 < x then PosInf
      else if x < 0 then NegInf
      else NaN)"

text \<open>\<^verbatim>\<open>np.linalg.norm(v, ord=1)\<close> and \<^verbatim>\<open>np.linalg.norm(v)\<close> of a vector.\<close>

definition norm_l1 :: "real list \<Rightarrow> real" where
  "norm_l1 v = sum_list (map abs v)"

definition norm_l2 :: "real list \<Rightarrow> real" where
  "norm_l2 v = sqrt (sum_list (map (\<lambda>x. x * x) v))"

text \<open>\<^verbatim>\<open>(b).astype(int)\<close> of a boolean.\<close>

definition astype_int :: "bool \<Rightarrow> int" where
  "astype_int b = (if b then 1 else 0)"

text \<open>Python's \<^verbatim>\<open>max\<close> of a list and its true division of a float.\<close>

definition py_max :: "int list \<Rightarrow> error + int" where
  "py_max xs = (case xs of [] \<Rightarrow> Inl (ValueError MaxEmptySequence) | y # ys \<Rightarrow> Inr (fold max ys y))"

definition py_truediv :: "real \<Rightarrow> real \<Rightarrow> error + real" where
  "py_truediv x y = (if y = 0 then Inl ZeroDivisionError else Inr (x / y))"

subsection \<open>The parameter check (lines 33-50)\<close>

text \<open>
  Lines 46 and 158 test \<^verbatim>\<open>mask != None\<close>. For an array numpy compares every element
  with \<^verbatim>\<open>None\<close>, which gives an array of \<^verbatim>\<open>True\<close> of the same shape, and the \<^verbatim>\<open>if\<close>
  asks for the truth value of that array: the one of its only element when it has one
  element, a \<^verbatim>\<open>ValueError\<close> for every other number of elements. (Before numpy 1.13 the
  comparison gave a single \<^verbatim>\<open>True\<close>, and before numpy 2.2 an array without elements
  counted as false, with a warning.)
\<close>

definition not_None_truth :: "'a array2 \<Rightarrow> error + bool" where
  "not_None_truth m =
     (if rows m * cols m = 1 then Inr True else Inl (ValueError AmbiguousTruthValue))"

text \<open>The bins and the ranges are used through their lengths only.\<close>

definition check_color_hist_params ::
  "'a array3 \<Rightarrow> int list \<Rightarrow> 'b list \<Rightarrow> 'c list \<Rightarrow> 'd array2 option \<Rightarrow> error + unit" where
  "check_color_hist_params img channels bins ranges msk =
     (case py_max channels of
        Inl e \<Rightarrow> Inl e
      | Inr mx \<Rightarrow>
          if mx > int (shape3 img ! 0) - 1 then
            Inl (ValueError (MaxChannelRequested mx (shape3 img ! 0)))
          else if length channels \<noteq> length bins then
            Inl (ValueError (LengthOfChannelsAndBins (length channels) (length bins)))
          else if 2 * length channels \<noteq> length ranges then
            Inl (ValueError (SizeOfRange (length ranges) (2 * length channels)))
          else
            (case msk of
               None \<Rightarrow> Inr ()
             | Some m \<Rightarrow>
                 (case not_None_truth m of
                    Inl e \<Rightarrow> Inl e
                  | Inr given \<Rightarrow>
                      if given then
                        if take 1 (shape2 m) \<noteq> take 1 (shape3 img) then
                          Inl (ValueError (ShapeOfMask (take 1 (shape2 m)) (take 1 (shape3 img))))
                        else Inr ()
                      else Inr ())))"

subsection \<open>The weighted intersection (lines 74-88)\<close>

definition np_multiply :: "real list \<Rightarrow> int list \<Rightarrow> real list" where
  "np_multiply xs ms = map2 (\<lambda>x m. x * real_of_int m) xs ms"

definition np_ones :: "nat \<Rightarrow> real list" where
  "np_ones n = replicate n 1"

definition np_dot :: "real list \<Rightarrow> real list \<Rightarrow> real" where
  "np_dot xs ys = sum_list (map2 (\<lambda>x y. x * y) xs ys)"

definition normalized_histogram_intersection ::
  "real list \<Rightarrow> real \<Rightarrow> real list \<Rightarrow> real \<Rightarrow> error + real" where
  "normalized_histogram_intersection hist_a a_size hist_b b_size =
     (if length hist_a \<noteq> length hist_b then
        Inl (ValueError (HistogramsNotSameSize (length hist_a) (length hist_b)))
      else
        let binary_mask = map2 (\<lambda>x y. astype_int (x > 0) AND astype_int (y > 0)) hist_a hist_b;
            hist_a_masked = np_multiply hist_a binary_mask;
            hist_b_masked = np_multiply hist_b binary_mask;
            a_sizes = map (\<lambda>one. a_size * one) (np_ones (length hist_a));
            b_sizes = map (\<lambda>one. b_size * one) (np_ones (length hist_b))
        in py_truediv (np_dot a_sizes hist_a_masked + np_dot b_sizes hist_b_masked)
             (a_size + b_size))"

text \<open>
  The specification's masked histogram: \<open>xs\<close> zeroed at every bin except those where
  both \<open>xs\<close> and \<open>ys\<close> are strictly positive.
\<close>

definition joint_support_masked :: "real list \<Rightarrow> real list \<Rightarrow> real list" where
  "joint_support_masked xs ys = map2 (\<lambda>x y. if 0 < x \<and> 0 < y then x else 0) xs ys"

subsection \<open>Colour histograms (lines 100-119)\<close>

text \<open>
  \<^verbatim>\<open>cv2.calcHist\<close> belongs to an external library: it is a parameter, which may raise.
\<close>

type_synonym calcHist_fn =
  "image \<Rightarrow> int list \<Rightarrow> mask option \<Rightarrow> int list \<Rightarrow> real list \<Rightarrow> error + real ndarray"

definition flatten :: "'a ndarray \<Rightarrow> 'a list" where
  "flatten a = data a"

definition get_normalized_histogram ::
  "calcHist_fn \<Rightarrow> image \<Rightarrow> int list \<Rightarrow> int list \<Rightarrow> real list \<Rightarrow> mask option
     \<Rightarrow> error + npfloat list" where
  "get_normalized_histogram calcHist img channels bins ranges msk =
     (case check_color_hist_params img channels bins ranges msk of
        Inl e \<Rightarrow> Inl e
      | Inr _ \<Rightarrow>
          (case calcHist img channels msk bins ranges of
             Inl e \<Rightarrow> Inl e
           | Inr hist \<Rightarrow>
               let hist = flatten hist
               in Inr (map (\<lambda>x. np_divide x (norm_l1 hist)) hist)))"

definition get_histogram ::
  "calcHist_fn \<Rightarrow> image \<Rightarrow> int list \<Rightarrow> int list \<Rightarrow> real list \<Rightarrow> mask option
     \<Rightarrow> error + real ndarray" where
  "get_histogram calcHist img channels bins ranges msk =
     (case check_color_hist_params img channels bins ranges msk of
        Inl e \<Rightarrow> Inl e
      | Inr _ \<Rightarrow> calcHist img channels msk bins ranges)"

subsection \<open>Two-dimensional arrays with numpy's broadcasting\<close>

text \<open>
  An axis of extent 1 is stretched to the extent of the other operand; any other
  difference of extents is an error. Element \<open>(r, c)\<close> of an array with \<open>cols\<close> columns
  is at position \<open>r * cols + c\<close>.
\<close>

definition bc :: "nat \<Rightarrow> nat \<Rightarrow> nat" where
  "bc extent i = (if extent = 1 then 0 else i)"

definition at2 :: "'a array2 \<Rightarrow> nat \<Rightarrow> nat \<Rightarrow> 'a" where
  "at2 a r c = data2 a ! (bc (rows a) r * cols a + bc (cols a) c)"

definition bc_dim :: "nat \<Rightarrow> nat \<Rightarrow> nat option" where
  "bc_dim m n = (if m = n then Some m else if m = 1 then Some n else if n = 1 then Some m else None)"

definition broadcast2 :: "('a \<Rightarrow> 'b \<Rightarrow> 'c) \<Rightarrow> 'a array2 \<Rightarrow> 'b array2 \<Rightarrow> error + 'c array2" where
  "broadcast2 f a b =
     (case (bc_dim (rows a) (rows b), bc_dim (cols a) (cols b)) of
        (Some nr, Some nc) \<Rightarrow>
          Inr \<lparr>rows = nr, cols = nc,
               data2 = map (\<lambda>p. f (at2 a (p div nc) (p mod nc)) (at2 b (p div nc) (p mod nc)))
                         [0..<nr * nc]\<rparr>
      | _ \<Rightarrow> Inl (ValueError CouldNotBroadcast))"

definition map_array2 :: "('a \<Rightarrow> 'b) \<Rightarrow> 'a array2 \<Rightarrow> 'b array2" where
  "map_array2 f a = \<lparr>rows = rows a, cols = cols a, data2 = map f (data2 a)\<rparr>"

text \<open>The slice \<^verbatim>\<open>a[:,:,i]\<close>, read and assigned.\<close>

definition get_channel :: "'a array3 \<Rightarrow> nat \<Rightarrow> error + 'a array2" where
  "get_channel a i =
     (if dim2 a \<le> i then Inl IndexError
      else Inr \<lparr>rows = dim0 a, cols = dim1 a,
                data2 = map (\<lambda>p. data3 a ! (p * dim2 a + i)) [0..<dim0 a * dim1 a]\<rparr>)"

definition fits :: "nat \<Rightarrow> nat \<Rightarrow> bool" where
  "fits m n \<longleftrightarrow> m = n \<or> m = 1"

definition set_channel :: "'a array3 \<Rightarrow> nat \<Rightarrow> 'a array2 \<Rightarrow> error + 'a array3" where
  "set_channel a i x =
     (if dim2 a \<le> i then Inl IndexError
      else if \<not> (fits (rows x) (dim0 a) \<and> fits (cols x) (dim1 a)) then
        Inl (ValueError CouldNotBroadcast)
      else
        Inr (a\<lparr>data3 :=
               map (\<lambda>j. if j mod dim2 a = i
                         then at2 x (j div dim2 a div dim1 a) (j div dim2 a mod dim1 a)
                         else data3 a ! j)
                 [0..<length (data3 a)]\<rparr>))"

text \<open>
  \<^verbatim>\<open>np.zeros((d0, d1, d2))\<close>, \<^verbatim>\<open>np.max\<close>, \<^verbatim>\<open>np.sum(a, axis=(0,1))\<close> and \<^verbatim>\<open>np.arange\<close>.
  The last one returns \<open>\<lceil>(stop - start) / step\<rceil>\<close> elements, here with the exact quotient. In
  double precision the quotient \<open>2\<pi> / (2\<pi> / n)\<close> of line 175 rounds to a value above \<open>n\<close> for
  some \<open>n\<close> (61 is the first), which gives one element more; exact reals do not show it.
\<close>

definition np_zeros :: "nat \<Rightarrow> nat \<Rightarrow> int \<Rightarrow> error + real array3" where
  "np_zeros d0 d1 d2 =
     (if d2 < 0 then Inl (ValueError NegativeDimensions)
      else Inr \<lparr>dim0 = d0, dim1 = d1, dim2 = nat d2, data3 = replicate (d0 * d1 * nat d2) 0\<rparr>)"

definition np_max :: "real list \<Rightarrow> error + real" where
  "np_max xs = (case xs of [] \<Rightarrow> Inl (ValueError ZeroSizeReduction) | y # ys \<Rightarrow> Inr (fold max ys y))"

definition np_sum_axes01 :: "real array3 \<Rightarrow> real list" where
  "np_sum_axes01 a =
     map (\<lambda>k. sum_list (map (\<lambda>p. data3 a ! (p * dim2 a + k)) [0..<dim0 a * dim1 a])) [0..<dim2 a]"

definition np_arange :: "real \<Rightarrow> real \<Rightarrow> real \<Rightarrow> real list" where
  "np_arange start stop step =
     map (\<lambda>k. start + real k * step) [0..<nat \<lceil>(stop - start) / step\<rceil>]"

subsection \<open>Loops that may raise\<close>

fun mapM :: "('a \<Rightarrow> error + 'b) \<Rightarrow> 'a list \<Rightarrow> error + 'b list" where
  "mapM f [] = Inr []"
| "mapM f (x # xs) =
     (case f x of
        Inl e \<Rightarrow> Inl e
      | Inr y \<Rightarrow> (case mapM f xs of Inl e \<Rightarrow> Inl e | Inr ys \<Rightarrow> Inr (y # ys)))"

fun foldM :: "('a \<Rightarrow> 's \<Rightarrow> error + 's) \<Rightarrow> 'a list \<Rightarrow> 's \<Rightarrow> error + 's" where
  "foldM f [] s = Inr s"
| "foldM f (x # xs) s = (case f x s of Inl e \<Rightarrow> Inl e | Inr s' \<Rightarrow> foldM f xs s')"

subsection \<open>The orientation-gradient descriptor (lines 155-203)\<close>

text \<open>
  The caller's image lives in a store of arrays; an address is a position in the store.
  \<^verbatim>\<open>np.copy\<close> allocates a new array, and the assignment \<^verbatim>\<open>im[:,:,i] = ...\<close> writes to
  the array at the address \<open>im\<close>. The samples of a mask are 8-bit, so that the product
  with a channel wraps like the assignment into the 8-bit copy does.
\<close>

type_synonym addr = nat
type_synonym store = "image list"

definition np_copy :: "store \<Rightarrow> addr \<Rightarrow> store \<times> addr" where
  "np_copy s a = (s @ [s ! a], length s)"

text \<open>Lines 159-160: \<^verbatim>\<open>for i in range(3): im[:,:,i] = mask * image[:,:,i]\<close>.\<close>

fun apply_mask :: "store \<Rightarrow> addr \<Rightarrow> addr \<Rightarrow> mask \<Rightarrow> nat list \<Rightarrow> store \<times> (error + unit)" where
  "apply_mask s im img m [] = (s, Inr ())"
| "apply_mask s im img m (i # is) =
     (case get_channel (s ! img) i of
        Inl e \<Rightarrow> (s, Inl e)
      | Inr x \<Rightarrow>
          (case broadcast2 (\<lambda>u v. u * v) m x of
             Inl e \<Rightarrow> (s, Inl e)
           | Inr y \<Rightarrow>
               (case set_channel (s ! im) i y of
                  Inl e \<Rightarrow> (s, Inl e)
                | Inr a \<Rightarrow> apply_mask (s[im := a]) im img m is)))"

text \<open>Lines 157-160: the copy, the test of line 158 and the loop.\<close>

definition copy_and_mask :: "store \<Rightarrow> addr \<Rightarrow> mask option \<Rightarrow> store \<times> addr \<times> (error + unit)" where
  "copy_and_mask s img msk =
     (let (s1, im) = np_copy s img
      in case msk of
           None \<Rightarrow> (s1, im, Inr ())
         | Some m \<Rightarrow>
             (case not_None_truth m of
                Inl e \<Rightarrow> (s1, im, Inl e)
              | Inr given \<Rightarrow>
                  if given then (let (s2, r) = apply_mask s1 im img m [0..<3] in (s2, im, r))
                  else (s1, im, Inr ())))"

text \<open>
  The gradient operator \<^verbatim>\<open>image_utils.get_derivative_orientation_and_mag\<close> is a
  collaborator outside this module: a parameter. It gets one channel and \<open>sigma\<close> and
  returns an object with the arrays \<^verbatim>\<open>ori\<close> and \<^verbatim>\<open>mag\<close>.
\<close>

record gradient =
  ori :: "real array2"
  mag :: "real array2"

type_synonym gradient_fn = "8 word array2 \<Rightarrow> real \<Rightarrow> gradient"

text \<open>
  Lines 168-170, for one channel. The dictionaries \<^verbatim>\<open>gradients\<close> and \<^verbatim>\<open>thresholds\<close>,
  whose keys are \<^verbatim>\<open>range(channels)\<close>, are one list of pairs indexed by the channel.
\<close>

definition gradient_and_threshold ::
  "gradient_fn \<Rightarrow> image \<Rightarrow> real \<Rightarrow> real \<Rightarrow> nat \<Rightarrow> error + gradient \<times> real" where
  "gradient_and_threshold grad im sigma th channel =
     (case get_channel im channel of
        Inl e \<Rightarrow> Inl e
      | Inr x \<Rightarrow>
          let g = grad x sigma
          in (case np_max (data2 (mag g)) of
                Inl e \<Rightarrow> Inl e
              | Inr m \<Rightarrow> Inr (g, th * m)))"

text \<open>Lines 173-177.\<close>

definition get_orientations :: "int \<Rightarrow> error + real list" where
  "get_orientations no_bins =
     (if no_bins = 0 then Inl ZeroDivisionError
      else
        let step = (pi - (- pi)) / real_of_int no_bins
        in Inr (np_arange (- pi) pi step @ [pi]))"

text \<open>Lines 189-191, the right-hand side: the indicator of one bin in one channel.\<close>

definition bin_indicator :: "gradient \<Rightarrow> real \<Rightarrow> real \<times> real \<Rightarrow> error + int array2" where
  "bin_indicator g threshold curr_range =
     (case broadcast2 (\<lambda>u v. u AND v)
             (map_array2 (\<lambda>x. astype_int (x > fst curr_range)) (ori g))
             (map_array2 (\<lambda>x. astype_int (x < snd curr_range)) (ori g)) of
        Inl e \<Rightarrow> Inl e
      | Inr both \<Rightarrow>
          broadcast2 (\<lambda>u v. u AND v) both (map_array2 (\<lambda>x. astype_int (x > threshold)) (mag g)))"

text \<open>Lines 188-191: the assignment into \<^verbatim>\<open>hist[:,:,ori_bin]\<close> of one channel.\<close>

definition fill_channel ::
  "nat \<Rightarrow> real \<times> real \<Rightarrow> gradient \<times> real \<Rightarrow> real array3 \<Rightarrow> error + real array3" where
  "fill_channel ori_bin curr_range gt hist =
     (case bin_indicator (fst gt) (snd gt) curr_range of
        Inl e \<Rightarrow> Inl e
      | Inr x \<Rightarrow> set_channel hist ori_bin (map_array2 real_of_int x))"

text \<open>Lines 186-191: one round of the loop over the bins.\<close>

definition fill_bin ::
  "real list \<Rightarrow> (gradient \<times> real) list \<Rightarrow> nat \<Rightarrow> real array3 list \<Rightarrow> error + real array3 list" where
  "fill_bin orientations gts ori_bin histograms =
     (let curr_range = (orientations ! ori_bin, orientations ! (ori_bin + 1))
      in mapM (\<lambda>(gt, hist). fill_channel ori_bin curr_range gt hist) (zip gts histograms))"

text \<open>Lines 162-196: the vector \<^verbatim>\<open>hist\<close> before it is normalized.\<close>

definition sift_counts :: "gradient_fn \<Rightarrow> image \<Rightarrow> real \<Rightarrow> int \<Rightarrow> real \<Rightarrow> error + real list" where
  "sift_counts grad im sigma no_bins th =
     (let shp = shape3 im;
          channels = shp ! 2
      in case mapM (gradient_and_threshold grad im sigma th) [0..<channels] of
           Inl e \<Rightarrow> Inl e
         | Inr gts \<Rightarrow>
             (case get_orientations no_bins of
                Inl e \<Rightarrow> Inl e
              | Inr orientations \<Rightarrow>
                  (case mapM (\<lambda>channel. np_zeros (shp ! 0) (shp ! 1) no_bins) [0..<channels] of
                     Inl e \<Rightarrow> Inl e
                   | Inr histograms \<Rightarrow>
                       (case foldM (fill_bin orientations gts) [0..<length orientations - 1]
                               histograms of
                          Inl e \<Rightarrow> Inl e
                        | Inr histograms \<Rightarrow>
                            Inr (fold (\<lambda>h hist. hist @ np_sum_axes01 h) histograms [])))))"

text \<open>Lines 198-203: the warning that is printed and the normalized vector.\<close>

definition normalize_descriptor :: "real list \<Rightarrow> string list \<times> npfloat list" where
  "normalize_descriptor hist =
     (if norm_l2 hist = 0 then [''Norm of the histogram = 0. Histogram is invalid.''] else [],
      map (\<lambda>x. np_divide x (norm_l1 hist)) hist)"

definition get_sift_features ::
  "gradient_fn \<Rightarrow> store \<Rightarrow> addr \<Rightarrow> real \<Rightarrow> int \<Rightarrow> real \<Rightarrow> mask option
     \<Rightarrow> store \<times> (error + string list \<times> npfloat list)" where
  "get_sift_features grad s img sigma no_bins th msk =
     (let (s', im, masked) = copy_and_mask s img msk
      in (s', case masked of
                Inl e \<Rightarrow> Inl e
              | Inr _ \<Rightarrow>
                  (case sift_counts grad (s' ! im) sigma no_bins th of
                     Inl e \<Rightarrow> Inl e
                   | Inr hist \<Rightarrow> Inr (normalize_descriptor hist))))"

text \<open>
  For the statements below: the boundaries of the bins, the pixels counted in a bin (the
  positions \<open>p\<close> of a channel whose orientation is strictly between two boundaries and
  whose magnitude is strictly above the threshold), and the working copy of a call.
\<close>

definition boundary :: "int \<Rightarrow> nat \<Rightarrow> real" where
  "boundary no_bins k = - pi + real k * (2 * pi / real_of_int no_bins)"

definition in_bin :: "int \<Rightarrow> nat \<Rightarrow> real \<Rightarrow> bool" where
  "in_bin no_bins k x \<longleftrightarrow> boundary no_bins k < x \<and> x < boundary no_bins (k + 1)"

definition pixels_in_bin :: "gradient \<Rightarrow> real \<Rightarrow> int \<Rightarrow> nat \<Rightarrow> nat \<Rightarrow> nat" where
  "pixels_in_bin g threshold no_bins k n =
     length (filter (\<lambda>p. in_bin no_bins k (data2 (ori g) ! p) \<and> threshold < data2 (mag g) ! p)
               [0..<n])"

definition working_copy :: "store \<Rightarrow> addr \<Rightarrow> mask option \<Rightarrow> image" where
  "working_copy s img msk = (case copy_and_mask s img msk of (s', im, _) \<Rightarrow> s' ! im)"

text \<open>One channel of an array, as \<open>get_channel\<close> returns it.\<close>

definition channel_of :: "'a array3 \<Rightarrow> nat \<Rightarrow> 'a array2" where
  "channel_of a i =
     \<lparr>rows = dim0 a, cols = dim1 a,
      data2 = map (\<lambda>p. data3 a ! (p * dim2 a + i)) [0..<dim0 a * dim1 a]\<rparr>"

text \<open>
  What a call needs to return a descriptor: the arrays of the gradient operator have the
  shape of the image, with as many elements, and a mask has one element, so that line 158
  has a truth value (the element is then stretched over the image), on an image that has
  the three channels that lines 159-160 visit.
\<close>

definition image_shaped :: "'a array2 \<Rightarrow> 'b array3 \<Rightarrow> bool" where
  "image_shaped x im \<longleftrightarrow>
     rows x = dim0 im \<and> cols x = dim1 im \<and> length (data2 x) = dim0 im * dim1 im"

definition gradients_image_shaped :: "gradient_fn \<Rightarrow> image \<Rightarrow> real \<Rightarrow> bool" where
  "gradients_image_shaped grad im sigma \<longleftrightarrow>
     list_all (\<lambda>ch. image_shaped (ori (grad (channel_of im ch) sigma)) im \<and>
                     image_shaped (mag (grad (channel_of im ch) sigma)) im) [0..<dim2 im]"

definition mask_fits :: "mask option \<Rightarrow> image \<Rightarrow> bool" where
  "mask_fits msk im \<longleftrightarrow>
     (case msk of
        None \<Rightarrow> True
      | Some m \<Rightarrow> rows m * cols m = 1 \<and> 3 \<le> dim2 im)"

definition same_shape :: "'a array3 \<Rightarrow> 'b array3 \<Rightarrow> bool" where
  "same_shape a b \<longleftrightarrow> dim0 a = dim0 b \<and> dim1 a = dim1 b \<and> dim2 a = dim2 b"

text \<open>
  The threshold of a channel, \<open>th\<close> times its largest magnitude, and the counts of its
  bins.
\<close>

definition channel_threshold :: "gradient_fn \<Rightarrow> image \<Rightarrow> real \<Rightarrow> real \<Rightarrow> nat \<Rightarrow> real" where
  "channel_threshold grad im sigma th ch = th * Max (set (data2 (mag (grad (channel_of im ch) sigma))))"

definition channel_counts :: "gradient_fn \<Rightarrow> image \<Rightarrow> real \<Rightarrow> int \<Rightarrow> real \<Rightarrow> nat \<Rightarrow> real list" where
  "channel_counts grad im sigma no_bins th ch =
     map (\<lambda>k. real (pixels_in_bin (grad (channel_of im ch) sigma)
                       (channel_threshold grad im sigma th ch) no_bins k (dim0 im * dim1 im)))
       [0..<nat no_bins]"

text \<open>
  For the proofs: the value that the loop stores for pixel \<open>p\<close> in bin \<open>k\<close>, and the
  array \<^verbatim>\<open>histograms[channel]\<close> after the first \<open>j\<close> rounds of the loop over the bins.
\<close>

definition bin_value :: "gradient \<times> real \<Rightarrow> int \<Rightarrow> nat \<Rightarrow> nat \<Rightarrow> real" where
  "bin_value gt no_bins k p =
     (if in_bin no_bins k (data2 (ori (fst gt)) ! p) \<and> snd gt < data2 (mag (fst gt)) ! p
      then 1 else 0)"

definition filled :: "gradient \<times> real \<Rightarrow> int \<Rightarrow> nat \<Rightarrow> nat \<Rightarrow> nat \<Rightarrow> real array3" where
  "filled gt no_bins h w j =
     \<lparr>dim0 = h, dim1 = w, dim2 = nat no_bins,
      data3 = map (\<lambda>i. if i mod nat no_bins < j
                        then bin_value gt no_bins (i mod nat no_bins) (i div nat no_bins)
                        else 0)
                [0..<h * w * nat no_bins]\<rparr>"

section \<open>Properties\<close>

subsection \<open>Weighted intersection and parameter check\<close>

lemma astype_int_AND: "astype_int p AND astype_int q = astype_int (p \<and> q)"
  by (simp add: astype_int_def)

lemma np_dot_sizes: "length xs = n \<Longrightarrow> np_dot (map (\<lambda>one. a * one) (np_ones n)) xs = a * sum_list xs"
proof (induction xs arbitrary: n)
  case Nil
  then show ?case by (simp add: np_dot_def np_ones_def)
next
  case (Cons x xs)
  then obtain m where n: "n = Suc m" and m: "length xs = m" by (cases n) auto
  from Cons.IH [OF m] show ?case
    by (simp add: n np_dot_def np_ones_def algebra_simps)
qed

lemma np_multiply_joint_mask:
  "length xs = length ys \<Longrightarrow>
   np_multiply xs (map2 (\<lambda>x y. astype_int (x > 0) AND astype_int (y > 0)) xs ys) = joint_support_masked xs ys"
  by (induction xs ys rule: list_induct2)
     (simp_all add: np_multiply_def joint_support_masked_def astype_int_AND, simp add: astype_int_def)

lemma np_multiply_joint_mask_flip:
  "length xs = length ys \<Longrightarrow>
   np_multiply ys (map2 (\<lambda>x y. astype_int (x > 0) AND astype_int (y > 0)) xs ys) = joint_support_masked ys xs"
  by (induction xs ys rule: list_induct2)
     (simp_all add: np_multiply_def joint_support_masked_def astype_int_AND, auto simp add: astype_int_def)

lemma length_joint_support_masked: "length (joint_support_masked xs ys) = min (length xs) (length ys)"
  by (simp add: joint_support_masked_def)

lemma nhi_numerator:
  assumes "length hist_a = length hist_b"
  shows "normalized_histogram_intersection hist_a a_size hist_b b_size =
         py_truediv (a_size * sum_list (joint_support_masked hist_a hist_b)
                     + b_size * sum_list (joint_support_masked hist_b hist_a)) (a_size + b_size)"
proof -
  have a: "np_dot (map (\<lambda>one. a_size * one) (np_ones (length hist_a))) (joint_support_masked hist_a hist_b)
           = a_size * sum_list (joint_support_masked hist_a hist_b)"
    by (rule np_dot_sizes) (simp add: length_joint_support_masked assms)
  have b: "np_dot (map (\<lambda>one. b_size * one) (np_ones (length hist_b))) (joint_support_masked hist_b hist_a)
           = b_size * sum_list (joint_support_masked hist_b hist_a)"
    by (rule np_dot_sizes) (simp add: length_joint_support_masked assms)
  show ?thesis
    unfolding normalized_histogram_intersection_def Let_def
    using assms a b
    by (simp add: np_multiply_joint_mask np_multiply_joint_mask_flip)
qed

text \<open>
  C1 (amended). For histograms of equal length and weights whose sum is not zero, the
  weighted intersection returns the size-weighted sum of the two histograms, each zeroed
  outside the bins where both are strictly positive, divided by the sum of the weights.
\<close>
theorem nhi_value:
  assumes "length hist_a = length hist_b" and "a_size + b_size \<noteq> 0"
  shows "normalized_histogram_intersection hist_a a_size hist_b b_size =
         Inr ((a_size * sum_list (joint_support_masked hist_a hist_b)
               + b_size * sum_list (joint_support_masked hist_b hist_a)) / (a_size + b_size))"
  using assms by (simp add: nhi_numerator py_truediv_def)

theorem nhi_value_witness:
  "length [1, 0, 2 :: real] = length [3, 4, 0 :: real] \<and> (2::real) + 3 \<noteq> 0 \<and>
   normalized_histogram_intersection [1, 0, 2] 2 [3, 4, 0] 3 = Inr (11 / 5)"
  using nhi_value [of "[1, 0, 2]" "[3, 4, 0]" 2 3]
  by (simp add: joint_support_masked_def)

text \<open>
  C1 as stated speaks of every pair of weights: with weights that sum to zero the
  division raises \<^verbatim>\<open>ZeroDivisionError\<close> and nothing is returned.
\<close>
theorem nhi_zero_weights: "normalized_histogram_intersection [1, 2] 0 [1, 2] 0 = Inl ZeroDivisionError"
  by (simp add: nhi_numerator py_truediv_def)

lemma joint_support_masked_self: "sum_list (joint_support_masked h h) = sum_list (filter (\<lambda>x. 0 < x) h)"
  by (induction h) (simp_all add: joint_support_masked_def)

lemma filter_all_positive: "\<forall>x\<in>set h. 0 < x \<Longrightarrow> filter (\<lambda>x. 0 < x) h = (h :: real list)"
  by (induction h) simp_all

text \<open>
  C4 (amended). Comparing a histogram with itself under one non-zero weight \<open>s\<close>
  returns the sum of its strictly positive bins, the weight cancelling; for an
  all-positive histogram this is the sum of all bins.
\<close>
theorem nhi_self:
  assumes "s \<noteq> 0"
  shows "normalized_histogram_intersection h s h s = Inr (sum_list (filter (\<lambda>x. 0 < x) h)) \<and>
         ((\<forall>x\<in>set h. 0 < x) \<longrightarrow> normalized_histogram_intersection h s h s = Inr (sum_list h))"
proof -
  have "normalized_histogram_intersection h s h s = Inr (sum_list (filter (\<lambda>x. 0 < x) h))"
    using assms by (simp add: nhi_numerator py_truediv_def joint_support_masked_self field_simps)
  then show ?thesis by (simp add: filter_all_positive)
qed

theorem nhi_self_witness:
  "(2::real) \<noteq> 0 \<and> normalized_histogram_intersection [1, 0, 3] 2 [1, 0, 3] 2 = Inr 4 \<and>
   (0::real) < 1 \<and> (0::real) < 3 \<and> normalized_histogram_intersection [1, 3] 2 [1, 3] 2 = Inr 4"
  using nhi_self [of 2 "[1, 0, 3]"] nhi_self [of 2 "[1, 3]"]
  by simp

text \<open>
  C4 as stated has the factor \<open>s\<close> in the result: for the histogram \<open>[1]\<close> and
  \<open>s = 2\<close> the result is 1, not 2.
\<close>
theorem nhi_self_not_weighted:
  "normalized_histogram_intersection [1] 2 [1] 2 = Inr 1 \<and> (1 :: real) \<noteq> 2 * sum_list [1]"
  by (simp add: nhi_numerator py_truediv_def joint_support_masked_def)

text \<open>
  C8. The weighted intersection raises the \<^verbatim>\<open>ShapeMismatch\<close> error exactly when the
  two histograms differ in length, whatever the weights; the test is the first statement
  of the function.
\<close>
theorem nhi_shape_mismatch:
  "((\<exists>e. normalized_histogram_intersection hist_a a_size hist_b b_size = Inl e \<and> is_ShapeMismatch e)
      \<longleftrightarrow> length hist_a \<noteq> length hist_b) \<and>
   (length hist_a \<noteq> length hist_b \<longrightarrow>
      normalized_histogram_intersection hist_a a_size hist_b b_size =
        Inl (ValueError (HistogramsNotSameSize (length hist_a) (length hist_b))))"
  by (auto simp add: normalized_histogram_intersection_def Let_def py_truediv_def)

theorem nhi_shape_mismatch_witness:
  "length [1, 2 :: real] \<noteq> length [1 :: real] \<and>
   normalized_histogram_intersection [1, 2] 0 [1] 0 = Inl (ValueError (HistogramsNotSameSize 2 1)) \<and>
   \<not> (\<exists>e. normalized_histogram_intersection [1, 2] 1 [3, 4] 1 = Inl e \<and> is_ShapeMismatch e)"
  using nhi_shape_mismatch [of "[1, 2]" 0 "[1]" 0] nhi_shape_mismatch [of "[1, 2]" 1 "[3, 4]" 1]
  by simp

text \<open>
  C10. With an empty list of channels the parameter check fails on \<^verbatim>\<open>max(channels)\<close>,
  and so do both histogram builders, whatever the binning routine: it is not called.
\<close>
theorem empty_channels_fail:
  "check_color_hist_params img [] bins ranges msk = Inl (ValueError MaxEmptySequence) \<and>
   get_histogram calcHist im [] bs rs mk = Inl (ValueError MaxEmptySequence) \<and>
   get_normalized_histogram calcHist im [] bs rs mk = Inl (ValueError MaxEmptySequence)"
  by (simp add: check_color_hist_params_def get_histogram_def get_normalized_histogram_def py_max_def)

lemma py_max_Cons: "py_max (y # ys) = Inr (Max (set (y # ys)))"
  by (simp only: py_max_def list.case Max.set_eq_fold)

lemma check_color_hist_params_accepts_iff:
  "check_color_hist_params img channels bins ranges msk = Inr () \<longleftrightarrow>
     channels \<noteq> [] \<and> (\<forall>c\<in>set channels. c \<le> int (dim0 img) - 1) \<and>
     length channels = length bins \<and> 2 * length channels = length ranges \<and>
     (case msk of None \<Rightarrow> True | Some m \<Rightarrow> rows m * cols m = 1 \<and> rows m = dim0 img)"
proof (cases channels)
  case Nil
  then show ?thesis by (simp add: check_color_hist_params_def py_max_def)
next
  case (Cons y ys)
  have mx: "py_max channels = Inr (Max (set channels))"
    unfolding Cons by (rule py_max_Cons)
  have ne: "channels \<noteq> []"
    using Cons by simp
  have all_iff: "(\<forall>c\<in>set channels. c \<le> int (dim0 img) - 1) \<longleftrightarrow>
      \<not> int (dim0 img) - 1 < Max (set channels)"
    using ne by (subst Max_gr_iff) (auto simp add: not_less)
  show ?thesis
    by (subst all_iff)
       (auto simp add: check_color_hist_params_def mx ne shape3_def shape2_def not_None_truth_def
         simp del: Max_less_iff Max_gr_iff Max_le_iff Max_ge_iff split: option.split)
qed

lemma check_color_hist_params_errors:
  assumes "check_color_hist_params img channels bins ranges msk = Inl e" and "channels \<noteq> []"
  shows "is_InvalidArgument e \<or> e = ValueError AmbiguousTruthValue"
proof -
  from assms(2) obtain y ys where "channels = y # ys" by (cases channels) auto
  then have "py_max channels = Inr (fold max ys y)" by (simp add: py_max_def)
  with assms(1) show ?thesis
    by (auto simp add: check_color_hist_params_def not_None_truth_def
        split: if_splits option.splits)
qed

text \<open>
  C3. The first test compares the largest channel index with \<^verbatim>\<open>image.shape[0]\<close>, the
  number of rows. A 5 by 5 image of 3 channels passes with channel 4, and a 2 by 2 image
  of 3 channels is refused with channel 2.
\<close>
theorem channel_check_compares_with_rows:
  "check_color_hist_params \<lparr>dim0 = 5, dim1 = 5, dim2 = 3, data3 = replicate 75 (0 :: 8 word)\<rparr>
     [4] [8 :: int] [0, 256 :: real] (None :: mask option) = Inr () \<and>
   check_color_hist_params \<lparr>dim0 = 2, dim1 = 2, dim2 = 3, data3 = replicate 12 (0 :: 8 word)\<rparr>
     [2] [8 :: int] [0, 256 :: real] (None :: mask option) = Inl (ValueError (MaxChannelRequested 2 2))"
  by (simp add: check_color_hist_params_def py_max_def shape3_def)

text \<open>
  C7. The mask test compares \<^verbatim>\<open>shape[:1]\<close>, the number of rows only: a mask of 1 row
  and 1 column passes for an image of 1 row and 5 columns.
\<close>
theorem mask_check_compares_rows_only:
  "check_color_hist_params \<lparr>dim0 = 1, dim1 = 5, dim2 = 3, data3 = replicate 15 (0 :: 8 word)\<rparr>
     [0] [2 :: int] [0, 256 :: real] (Some \<lparr>rows = 1, cols = 1, data2 = [1 :: 8 word]\<rparr>) = Inr ()"
  by (simp add: check_color_hist_params_def py_max_def shape3_def shape2_def not_None_truth_def)

lemma norm_l1_nonneg: "0 \<le> norm_l1 v"
  unfolding norm_l1_def by (rule sum_list_nonneg) auto

lemma norm_l1_eq_0_iff: "norm_l1 v = 0 \<longleftrightarrow> (\<forall>x\<in>set v. x = 0)"
  unfolding norm_l1_def by (subst sum_list_nonneg_eq_0_iff) auto

lemma norm_l1_divide: "norm_l1 (map (\<lambda>x. x / n) v) = norm_l1 v / \<bar>n\<bar>"
  by (induction v) (simp_all add: norm_l1_def add_divide_distrib)

lemma norm_l1_normalized: "norm_l1 v \<noteq> 0 \<Longrightarrow> norm_l1 (map (\<lambda>x. x / norm_l1 v) v) = 1"
  using norm_l1_nonneg [of v] by (simp add: norm_l1_divide)

lemma map_np_divide: "n \<noteq> 0 \<Longrightarrow> map (\<lambda>x. np_divide x n) v = map (\<lambda>x. Finite (x / n)) v"
  by (simp add: np_divide_def)

text \<open>
  C5. When the raw histogram of \<open>get_histogram\<close> exists and has a non-zero bin, the
  normalized histogram for the same parameters is the flattened raw histogram with every
  bin divided by its L1 norm, and its absolute values sum to 1.
\<close>
theorem normalized_histogram_l1:
  assumes "get_histogram calcHist img channels bins ranges msk = Inr raw"
    and "\<exists>x\<in>set (flatten raw). x \<noteq> 0"
  shows "norm_l1 (flatten raw) \<noteq> 0 \<and>
         get_normalized_histogram calcHist img channels bins ranges msk =
           Inr (map (\<lambda>x. Finite (x / norm_l1 (flatten raw))) (flatten raw)) \<and>
         norm_l1 (map (\<lambda>x. x / norm_l1 (flatten raw)) (flatten raw)) = 1"
proof -
  from assms(2) have n: "norm_l1 (flatten raw) \<noteq> 0"
    by (simp add: norm_l1_eq_0_iff)
  from assms(1) have ok: "check_color_hist_params img channels bins ranges msk = Inr ()"
    and raw: "calcHist img channels msk bins ranges = Inr raw"
    by (auto simp add: get_histogram_def split: sum.splits)
  from ok raw have "get_normalized_histogram calcHist img channels bins ranges msk =
      Inr (map (\<lambda>x. np_divide x (norm_l1 (flatten raw))) (flatten raw))"
    by (simp add: get_normalized_histogram_def Let_def)
  with n show ?thesis
    by (simp add: map_np_divide norm_l1_normalized)
qed

theorem normalized_histogram_l1_witness:
  "get_histogram (\<lambda>_ _ _ _ _. Inr \<lparr>shape = [2], data = [3, 1]\<rparr>)
     \<lparr>dim0 = 2, dim1 = 2, dim2 = 3, data3 = [10, 0, 0, 10, 0, 0, 10, 0, 0, 200, 0, 0]\<rparr>
     [0] [2] [0, 256] None = Inr \<lparr>shape = [2], data = [3, 1]\<rparr> \<and>
   (\<exists>x\<in>set (flatten \<lparr>shape = [2], data = [3, 1 :: real]\<rparr>). x \<noteq> 0) \<and>
   get_normalized_histogram (\<lambda>_ _ _ _ _. Inr \<lparr>shape = [2], data = [3, 1]\<rparr>)
     \<lparr>dim0 = 2, dim1 = 2, dim2 = 3, data3 = [10, 0, 0, 10, 0, 0, 10, 0, 0, 200, 0, 0]\<rparr>
     [0] [2] [0, 256] None = Inr [Finite (3 / 4), Finite (1 / 4)]"
proof -
  have h: "get_histogram (\<lambda>_ _ _ _ _. Inr \<lparr>shape = [2], data = [3, 1]\<rparr>)
     \<lparr>dim0 = 2, dim1 = 2, dim2 = 3, data3 = [10, 0, 0, 10, 0, 0, 10, 0, 0, 200, 0, 0 :: 8 word]\<rparr>
     [0] [2] [0, 256] None = Inr \<lparr>shape = [2], data = [3, 1]\<rparr>"
    by (simp add: get_histogram_def check_color_hist_params_def py_max_def shape3_def)
  have nz: "\<exists>x\<in>set (flatten \<lparr>shape = [2], data = [3, 1 :: real]\<rparr>). x \<noteq> 0"
    by (simp add: flatten_def)
  from normalized_histogram_l1 [OF h nz] h nz show ?thesis
    by (simp add: flatten_def norm_l1_def)
qed

subsection \<open>The orientation-gradient descriptor\<close>

lemma mapM_Inr: "(\<And>x. x \<in> set xs \<Longrightarrow> f x = Inr (g x)) \<Longrightarrow> mapM f xs = Inr (map g xs)"
  by (induction xs) simp_all

lemma foldM_append:
  "foldM f (xs @ ys) s = (case foldM f xs s of Inl e \<Rightarrow> Inl e | Inr s' \<Rightarrow> foldM f ys s')"
  by (induction xs arbitrary: s) (simp_all split: sum.split)

lemma foldM_upt_Inr:
  "(\<And>j. j < n \<Longrightarrow> f j (st j) = Inr (st (Suc j))) \<Longrightarrow> foldM f [0..<n] (st 0) = Inr (st n)"
  by (induction n) (simp_all add: foldM_append)

lemma fold_append_concat: "fold (\<lambda>h acc. acc @ f h) xs ys = ys @ concat (map f xs)"
  by (induction xs arbitrary: ys) simp_all

lemma at2_flat:
  assumes "p < rows x * cols x"
  shows "at2 x (p div cols x) (p mod cols x) = data2 x ! p"
proof -
  have r: "bc (rows x) (p div cols x) = p div cols x"
    using assms by (auto simp add: bc_def)
  have c: "bc (cols x) (p mod cols x) = p mod cols x"
    by (simp add: bc_def)
  show ?thesis
    by (simp add: at2_def r c)
qed

lemma broadcast2_same_shape:
  assumes "rows a = rows b" and "cols a = cols b"
  shows "broadcast2 f a b =
     Inr \<lparr>rows = rows a, cols = cols a,
          data2 = map (\<lambda>p. f (data2 a ! p) (data2 b ! p)) [0..<rows a * cols a]\<rparr>"
proof -
  have "f (at2 a (p div cols a) (p mod cols a)) (at2 b (p div cols a) (p mod cols a)) =
        f (data2 a ! p) (data2 b ! p)" if "p < rows a * cols a" for p
    using that at2_flat [of p a] at2_flat [of p b] assms by simp
  then show ?thesis
    using assms by (simp add: broadcast2_def bc_dim_def)
qed

lemma bin_indicator_shaped:
  assumes "image_shaped (ori g) im" and "image_shaped (mag g) im"
  shows "bin_indicator g t (lo, hi) =
     Inr \<lparr>rows = dim0 im, cols = dim1 im,
          data2 = map (\<lambda>p. astype_int (lo < data2 (ori g) ! p \<and> data2 (ori g) ! p < hi \<and>
                                         t < data2 (mag g) ! p)) [0..<dim0 im * dim1 im]\<rparr>"
  using assms
  by (simp add: bin_indicator_def image_shaped_def broadcast2_same_shape map_array2_def
      astype_int_AND conj_assoc)

lemma fill_channel_step:
  assumes o: "image_shaped (ori g) im" and m: "image_shaped (mag g) im"
    and j: "j < nat no_bins"
  shows "fill_channel j (boundary no_bins j, boundary no_bins (Suc j)) (g, t)
           (filled (g, t) no_bins (dim0 im) (dim1 im) j) =
         Inr (filled (g, t) no_bins (dim0 im) (dim1 im) (Suc j))"
proof -
  let ?h = "dim0 im" and ?w = "dim1 im" and ?nb = "nat no_bins"
  let ?ind = "\<lambda>p. astype_int (boundary no_bins j < data2 (ori g) ! p \<and>
                      data2 (ori g) ! p < boundary no_bins (Suc j) \<and> t < data2 (mag g) ! p)"
  let ?x = "\<lparr>rows = ?h, cols = ?w, data2 = map (\<lambda>p. real_of_int (?ind p)) [0..<?h * ?w]\<rparr>"
  have ind: "bin_indicator g t (boundary no_bins j, boundary no_bins (Suc j)) =
      Inr \<lparr>rows = ?h, cols = ?w, data2 = map ?ind [0..<?h * ?w]\<rparr>"
    by (rule bin_indicator_shaped [OF o m])
  have x: "map_array2 real_of_int \<lparr>rows = ?h, cols = ?w, data2 = map ?ind [0..<?h * ?w]\<rparr> = ?x"
    by (simp add: map_array2_def)
  have cell: "(if i mod ?nb = j then at2 ?x (i div ?nb div ?w) (i div ?nb mod ?w)
               else data3 (filled (g, t) no_bins ?h ?w j) ! i) =
              (if i mod ?nb < Suc j then bin_value (g, t) no_bins (i mod ?nb) (i div ?nb) else 0)"
    if i: "i < ?h * ?w * ?nb" for i
  proof (cases "i mod ?nb = j")
    case True
    from i have p: "i div ?nb < ?h * ?w"
      by (simp add: less_mult_imp_div_less)
    then have "at2 ?x (i div ?nb div cols ?x) (i div ?nb mod cols ?x) = data2 ?x ! (i div ?nb)"
      by (intro at2_flat) simp
    with p have "at2 ?x (i div ?nb div ?w) (i div ?nb mod ?w) = real_of_int (?ind (i div ?nb))"
      by simp
    with True show ?thesis
      by (simp add: bin_value_def in_bin_def astype_int_def)
  next
    case False
    then have "i mod ?nb < Suc j \<longleftrightarrow> i mod ?nb < j" by auto
    with False i show ?thesis
      by (simp add: filled_def)
  qed
  have len: "length (data3 (filled (g, t) no_bins ?h ?w j)) = ?h * ?w * ?nb"
    by (simp add: filled_def)
  have maps: "map (\<lambda>i. if i mod ?nb = j then at2 ?x (i div ?nb div ?w) (i div ?nb mod ?w)
                        else data3 (filled (g, t) no_bins ?h ?w j) ! i) [0..<?h * ?w * ?nb] =
              map (\<lambda>i. if i mod ?nb < Suc j then bin_value (g, t) no_bins (i mod ?nb) (i div ?nb) else 0)
                [0..<?h * ?w * ?nb]"
    by (rule map_cong [OF refl]) (simp only: cell atLeast0LessThan set_upt lessThan_iff)
  have dims: "dim2 (filled (g, t) no_bins ?h ?w j) = ?nb" "dim1 (filled (g, t) no_bins ?h ?w j) = ?w"
    "dim0 (filled (g, t) no_bins ?h ?w j) = ?h"
    by (simp_all add: filled_def)
  have "set_channel (filled (g, t) no_bins ?h ?w j) j ?x =
        Inr (filled (g, t) no_bins ?h ?w j
              \<lparr>data3 := map (\<lambda>i. if i mod ?nb < Suc j
                                 then bin_value (g, t) no_bins (i mod ?nb) (i div ?nb) else 0)
                          [0..<?h * ?w * ?nb]\<rparr>)"
    unfolding set_channel_def len dims maps
    using j by (simp add: fits_def)
  also have "\<dots> = Inr (filled (g, t) no_bins ?h ?w (Suc j))"
    by (simp add: filled_def)
  finally have "set_channel (filled (g, t) no_bins ?h ?w j) j ?x =
        Inr (filled (g, t) no_bins ?h ?w (Suc j))" .
  then show ?thesis
    by (simp add: fill_channel_def ind x)
qed

lemma boundary_last: "0 < no_bins \<Longrightarrow> boundary no_bins (nat no_bins) = pi"
  by (simp add: boundary_def)

lemma get_orientations_boundaries:
  assumes "0 < no_bins"
  shows "get_orientations no_bins = Inr (map (boundary no_bins) [0..<Suc (nat no_bins)])"
proof -
  have "(pi - - pi) / ((pi - - pi) / real_of_int no_bins) = real_of_int no_bins"
    using assms by simp
  then have n: "nat \<lceil>(pi - - pi) / ((pi - - pi) / real_of_int no_bins)\<rceil> = nat no_bins"
    by simp
  have "np_arange (- pi) pi ((pi - - pi) / real_of_int no_bins) = map (boundary no_bins) [0..<nat no_bins]"
    unfolding np_arange_def n by (simp add: boundary_def)
  with assms show ?thesis
    by (simp add: get_orientations_def boundary_last)
qed

lemma sum_bin_value:
  "sum_list (map (bin_value (g, t) no_bins k) [0..<n]) = real (pixels_in_bin g t no_bins k n)"
  by (induction n) (simp_all add: pixels_in_bin_def bin_value_def)

lemma np_sum_axes01_filled:
  "np_sum_axes01 (filled (g, t) no_bins h w (nat no_bins)) =
   map (\<lambda>k. real (pixels_in_bin g t no_bins k (h * w))) [0..<nat no_bins]"
proof -
  let ?nb = "nat no_bins"
  have cell: "data3 (filled (g, t) no_bins h w ?nb) ! (p * ?nb + k) = bin_value (g, t) no_bins k p"
    if "p < h * w" and "k < ?nb" for p k
  proof -
    from that have "p * ?nb + k < Suc p * ?nb" by simp
    also from that have "\<dots> \<le> (h * w) * ?nb"
      by (intro mult_le_mono1) simp
    finally have "p * ?nb + k < h * w * ?nb" .
    with that show ?thesis
      by (simp add: filled_def)
  qed
  have "sum_list (map (\<lambda>p. data3 (filled (g, t) no_bins h w ?nb) ! (p * ?nb + k)) [0..<h * w]) =
        real (pixels_in_bin g t no_bins k (h * w))" if "k < ?nb" for k
  proof -
    have "map (\<lambda>p. data3 (filled (g, t) no_bins h w ?nb) ! (p * ?nb + k)) [0..<h * w] =
          map (bin_value (g, t) no_bins k) [0..<h * w]"
      using that by (intro map_cong [OF refl]) (simp add: cell)
    then show ?thesis
      by (simp only: sum_bin_value)
  qed
  then have "map (\<lambda>k. sum_list (map (\<lambda>p. data3 (filled (g, t) no_bins h w ?nb) ! (p * ?nb + k)) [0..<h * w])) [0..<?nb]
     = map (\<lambda>k. real (pixels_in_bin g t no_bins k (h * w))) [0..<?nb]"
    by (intro map_cong [OF refl]) simp
  then show ?thesis
    by (simp add: np_sum_axes01_def filled_def)
qed

lemma filled_0: "0 \<le> no_bins \<Longrightarrow> np_zeros h w no_bins = Inr (filled gt no_bins h w 0)"
  by (simp add: np_zeros_def filled_def map_replicate_const)

lemma mapM_map_Inr:
  "(\<And>x. x \<in> set xs \<Longrightarrow> f (h x) = Inr (g x)) \<Longrightarrow> mapM f (map h xs) = Inr (map g xs)"
  by (induction xs) simp_all

lemma zip_map_same: "zip xs (map f xs) = map (\<lambda>x. (x, f x)) xs"
  by (induction xs) simp_all

lemma get_channel_of: "get_channel a i = (if dim2 a \<le> i then Inl IndexError else Inr (channel_of a i))"
  by (simp add: get_channel_def channel_of_def)

lemma np_max_Max: "xs \<noteq> [] \<Longrightarrow> np_max xs = Inr (Max (set xs))"
  by (cases xs) (simp_all add: np_max_def Max.set_eq_fold del: set_simps)

lemma sift_counts_closed:
  assumes nb: "0 < no_bins" and h: "0 < dim0 im" and w: "0 < dim1 im"
    and shaped: "gradients_image_shaped grad im sigma"
  shows "sift_counts grad im sigma no_bins th =
         Inr (concat (map (channel_counts grad im sigma no_bins th) [0..<dim2 im]))"
proof -
  let ?c = "dim2 im" and ?h = "dim0 im" and ?w = "dim1 im" and ?nb = "nat no_bins"
  let ?g = "\<lambda>ch. grad (channel_of im ch) sigma"
  let ?gt = "\<lambda>ch. (?g ch, channel_threshold grad im sigma th ch)"
  let ?gts = "map ?gt [0..<?c]"
  let ?st = "\<lambda>j. map (\<lambda>gt. filled gt no_bins ?h ?w j) ?gts"
  let ?ors = "map (boundary no_bins) [0..<Suc ?nb]"
  from shaped have sh: "image_shaped (ori (?g ch)) im" "image_shaped (mag (?g ch)) im"
    if "ch < ?c" for ch
    using that by (simp_all add: gradients_image_shaped_def list_all_iff)
  have gts: "mapM (gradient_and_threshold grad im sigma th) [0..<?c] = Inr ?gts"
  proof (rule mapM_Inr)
    fix ch assume "ch \<in> set [0..<?c]"
    then have ch: "ch < ?c" by simp
    from sh(2) [OF ch] h w have "data2 (mag (?g ch)) \<noteq> []"
      by (auto simp add: image_shaped_def)
    then have "np_max (data2 (mag (?g ch))) = Inr (Max (set (data2 (mag (?g ch)))))"
      by (rule np_max_Max)
    with ch show "gradient_and_threshold grad im sigma th ch = Inr (?gt ch)"
      by (simp add: gradient_and_threshold_def get_channel_of channel_threshold_def Let_def)
  qed
  have ors: "get_orientations no_bins = Inr ?ors"
    by (rule get_orientations_boundaries [OF nb])
  have zeros: "mapM (\<lambda>channel. np_zeros ?h ?w no_bins) [0..<?c] = Inr (?st 0)"
    unfolding map_map
    by (rule mapM_Inr) (use nb in \<open>simp add: filled_0 [symmetric]\<close>)
  have step: "fill_bin ?ors ?gts j (?st j) = Inr (?st (Suc j))" if j: "j < ?nb" for j
  proof -
    have "mapM (\<lambda>(gt, hist). fill_channel j (boundary no_bins j, boundary no_bins (Suc j)) gt hist)
            (map (\<lambda>gt. (gt, filled gt no_bins ?h ?w j)) ?gts) = Inr (?st (Suc j))"
    proof (rule mapM_map_Inr)
      fix gt assume "gt \<in> set ?gts"
      then obtain ch where ch: "ch < ?c" and gt: "gt = ?gt ch" by auto
      show "(case (gt, filled gt no_bins ?h ?w j) of
              (gt, hist) \<Rightarrow> fill_channel j (boundary no_bins j, boundary no_bins (Suc j)) gt hist) =
            Inr (filled gt no_bins ?h ?w (Suc j))"
        unfolding gt prod.case
        by (rule fill_channel_step [OF sh(1) [OF ch] sh(2) [OF ch] j])
    qed
    moreover from j have "?ors ! j = boundary no_bins j" "?ors ! (j + 1) = boundary no_bins (Suc j)"
      by (simp_all del: upt_Suc)
    ultimately show ?thesis
      unfolding fill_bin_def Let_def zip_map_same by (simp only:)
  qed
  have len: "length ?ors - 1 = ?nb" by simp
  have fill: "foldM (fill_bin ?ors ?gts) [0..<length ?ors - 1] (?st 0) = Inr (?st ?nb)"
    unfolding len by (rule foldM_upt_Inr) (rule step)
  have sums: "fold (\<lambda>h hist. hist @ np_sum_axes01 h) (?st ?nb) [] =
              concat (map (channel_counts grad im sigma no_bins th) [0..<?c])"
    by (simp add: fold_append_concat np_sum_axes01_filled channel_counts_def [abs_def] comp_def)
  have shp: "shape3 im ! 0 = ?h" "shape3 im ! 1 = ?w" "shape3 im ! 2 = ?c"
    by (simp_all add: shape3_def)
  show ?thesis
    unfolding sift_counts_def Let_def shp
    by (simp only: gts ors zeros fill sums sum.case)
qed

lemma apply_mask_frame:
  "length (fst (apply_mask s im img m is)) = length s \<and>
   (\<forall>a. a \<noteq> im \<longrightarrow> fst (apply_mask s im img m is) ! a = s ! a)"
  by (induction "is" arbitrary: s) (auto split: sum.splits)

lemma copy_and_mask_frame:
  "take (length s) (fst (copy_and_mask s img msk)) = s \<and>
   length (fst (copy_and_mask s img msk)) = Suc (length s) \<and>
   fst (snd (copy_and_mask s img msk)) = length s"
proof (cases msk)
  case None
  then show ?thesis by (simp add: copy_and_mask_def np_copy_def)
next
  case (Some m)
  let ?s1 = "s @ [s ! img]"
  let ?s2 = "fst (apply_mask ?s1 (length s) img m [0..<3])"
  have len: "length ?s2 = Suc (length s)"
    using apply_mask_frame [of ?s1 "length s" img m "[0..<3]"] by simp
  have "take (length s) ?s2 = s"
  proof (rule nth_equalityI)
    show "length (take (length s) ?s2) = length s"
      using len by simp
  next
    fix a assume "a < length (take (length s) ?s2)"
    then have a: "a < length s" by simp
    with apply_mask_frame [of ?s1 "length s" img m "[0..<3]"]
    have "?s2 ! a = ?s1 ! a" by simp
    with a show "take (length s) ?s2 ! a = s ! a"
      by (simp add: nth_append)
  qed
  with len Some show ?thesis
    by (simp add: copy_and_mask_def np_copy_def not_None_truth_def split_beta)
qed

lemma fst_get_sift_features:
  "fst (get_sift_features grad s img sigma no_bins th msk) = fst (copy_and_mask s img msk)"
  by (simp add: get_sift_features_def split_beta)

lemma mask_product_shape:
  assumes "fits (rows m) (rows x)" and "fits (cols m) (cols x)"
  shows "\<exists>y. broadcast2 f m x = Inr y \<and> rows y = rows x \<and> cols y = cols x"
  using assms by (auto simp add: broadcast2_def bc_dim_def fits_def)

lemma apply_mask_ok:
  assumes "\<forall>i\<in>set is. i < dim2 (s ! img)" and "img \<noteq> im" and "im < length s"
    and "same_shape (s ! im) (s ! img)"
    and "fits (rows m) (dim0 (s ! img))" and "fits (cols m) (dim1 (s ! img))"
  shows "\<exists>s'. apply_mask s im img m is = (s', Inr ()) \<and> same_shape (s' ! im) (s ! img)"
  using assms
proof (induction "is" arbitrary: s)
  case Nil
  then show ?case by simp
next
  case (Cons i "is")
  from Cons.prems have i: "i < dim2 (s ! img)" by simp
  then have ch: "get_channel (s ! img) i = Inr (channel_of (s ! img) i)"
    by (simp add: get_channel_of)
  from Cons.prems obtain y where y: "broadcast2 (\<lambda>u v. u * v) m (channel_of (s ! img) i) = Inr y"
    and ry: "rows y = dim0 (s ! img)" and cy: "cols y = dim1 (s ! img)"
    using mask_product_shape [of m "channel_of (s ! img) i" "\<lambda>u v. u * v"]
    by (auto simp add: channel_of_def)
  from Cons.prems i ry cy obtain a where a: "set_channel (s ! im) i y = Inr a"
    and sa: "same_shape a (s ! img)"
    by (auto simp add: set_channel_def same_shape_def fits_def)
  let ?s = "s[im := a]"
  from Cons.prems sa have "\<exists>s'. apply_mask ?s im img m is = (s', Inr ()) \<and> same_shape (s' ! im) (?s ! img)"
    by (intro Cons.IH) simp_all
  with Cons.prems ch y a show ?case
    by simp
qed

lemma copy_and_mask_ok:
  assumes "img < length s" and "mask_fits msk (s ! img)"
  shows "snd (snd (copy_and_mask s img msk)) = Inr () \<and>
         same_shape (working_copy s img msk) (s ! img)"
proof (cases msk)
  case None
  then show ?thesis
    by (simp add: copy_and_mask_def np_copy_def working_copy_def same_shape_def)
next
  case (Some m)
  let ?s1 = "s @ [s ! img]"
  from assms have img: "?s1 ! img = s ! img"
    by (simp add: nth_append)
  have "\<exists>s'. apply_mask ?s1 (length s) img m [0..<3] = (s', Inr ()) \<and>
              same_shape (s' ! length s) (?s1 ! img)"
    using assms Some
    by (intro apply_mask_ok) (auto simp add: img mask_fits_def same_shape_def fits_def)
  moreover from assms Some have "not_None_truth m = Inr True"
    by (simp add: mask_fits_def not_None_truth_def)
  ultimately show ?thesis
    using Some img by (auto simp add: copy_and_mask_def np_copy_def working_copy_def)
qed

lemma snd_get_sift_features:
  assumes "snd (snd (copy_and_mask s img msk)) = Inr ()"
  shows "snd (get_sift_features grad s img sigma no_bins th msk) =
         (case sift_counts grad (working_copy s img msk) sigma no_bins th of
            Inl e \<Rightarrow> Inl e
          | Inr hist \<Rightarrow> Inr (normalize_descriptor hist))"
  using assms by (simp add: get_sift_features_def working_copy_def split_beta)

lemma get_sift_features_closed:
  assumes "img < length s" and "mask_fits msk (s ! img)" and "0 < no_bins"
    and "0 < dim0 (s ! img)" and "0 < dim1 (s ! img)"
    and "gradients_image_shaped grad (working_copy s img msk) sigma"
  shows "sift_counts grad (working_copy s img msk) sigma no_bins th =
           Inr (concat (map (channel_counts grad (working_copy s img msk) sigma no_bins th)
                          [0..<dim2 (s ! img)])) \<and>
         snd (get_sift_features grad s img sigma no_bins th msk) =
           Inr (normalize_descriptor
                  (concat (map (channel_counts grad (working_copy s img msk) sigma no_bins th)
                             [0..<dim2 (s ! img)])))"
proof -
  from copy_and_mask_ok [OF assms(1,2)]
  have ok: "snd (snd (copy_and_mask s img msk)) = Inr ()"
    and sh: "same_shape (working_copy s img msk) (s ! img)" by simp_all
  from sh assms have "sift_counts grad (working_copy s img msk) sigma no_bins th =
      Inr (concat (map (channel_counts grad (working_copy s img msk) sigma no_bins th)
                     [0..<dim2 (working_copy s img msk)]))"
    by (intro sift_counts_closed) (simp_all add: same_shape_def)
  with sh show ?thesis
    by (simp add: snd_get_sift_features [OF ok] same_shape_def)
qed

lemma boundary_mono: "0 < no_bins \<Longrightarrow> j \<le> k \<Longrightarrow> boundary no_bins j \<le> boundary no_bins k"
  by (simp add: boundary_def divide_le_cancel mult_right_mono)

lemma boundary_not_in_bin: "0 < no_bins \<Longrightarrow> \<not> in_bin no_bins k (boundary no_bins j)"
proof
  assume nb: "0 < no_bins" and "in_bin no_bins k (boundary no_bins j)"
  then have a: "boundary no_bins k < boundary no_bins j"
    and b: "boundary no_bins j < boundary no_bins (k + 1)"
    by (simp_all add: in_bin_def)
  from a boundary_mono [OF nb, of j k] have "k < j" by (cases "j \<le> k") auto
  moreover from b boundary_mono [OF nb, of "k + 1" j] have "j < k + 1" by (cases "k + 1 \<le> j") auto
  ultimately show False by simp
qed

lemma boundary_width: "boundary no_bins (Suc k) - boundary no_bins k = 2 * pi / real_of_int no_bins"
  by (simp add: boundary_def algebra_simps add_divide_distrib)

text \<open>
  C2 (amended). For an image with at least one row and one column in the store, a
  positive number of bins, no mask or a mask of one element on an image of at least three
  channels, and a gradient operator that returns arrays of the shape of the image: the
  boundaries \<open>boundary no_bins k\<close>, for \<open>k\<close> from 0 to \<open>no_bins\<close>, cut \<open>[-\<pi>, \<pi>]\<close> into
  \<open>no_bins\<close> intervals of equal width, and the vector before normalization holds, for every channel and bin, the number of pixels whose orientation
  is strictly between the two boundaries of the bin and whose magnitude is strictly above
  the threshold of the channel. The comparisons are strict on both sides for every bin,
  the upper bound \<open>\<pi>\<close> of the last bin included: a pixel whose orientation equals any
  boundary is counted in no bin.
\<close>
theorem orientation_bins_strict:
  assumes "img < length s" and "mask_fits msk (s ! img)" and "0 < no_bins"
    and "0 < dim0 (s ! img)" and "0 < dim1 (s ! img)"
    and "gradients_image_shaped grad (working_copy s img msk) sigma"
  shows "sift_counts grad (working_copy s img msk) sigma no_bins th =
           Inr (concat (map (channel_counts grad (working_copy s img msk) sigma no_bins th)
                          [0..<dim2 (s ! img)])) \<and>
         snd (get_sift_features grad s img sigma no_bins th msk) =
           Inr (normalize_descriptor
                  (concat (map (channel_counts grad (working_copy s img msk) sigma no_bins th)
                             [0..<dim2 (s ! img)]))) \<and>
         boundary no_bins 0 = - pi \<and> boundary no_bins (nat no_bins) = pi \<and>
         (\<forall>k. boundary no_bins (Suc k) - boundary no_bins k = 2 * pi / real_of_int no_bins) \<and>
         (\<forall>j k. \<not> in_bin no_bins k (boundary no_bins j))"
  using get_sift_features_closed [OF assms, of th] assms(3)
  by (simp add: boundary_last boundary_not_in_bin boundary_width) (simp add: boundary_def)

theorem orientation_bins_strict_witness:
  "snd (get_sift_features
          (\<lambda>x sg. \<lparr>ori = \<lparr>rows = 1, cols = 2, data2 = [0, pi / 2]\<rparr>,
                    mag = \<lparr>rows = 1, cols = 2, data2 = [1, 1]\<rparr>\<rparr>)
          [\<lparr>dim0 = 1, dim1 = 2, dim2 = 1, data3 = [10, 20]\<rparr>] 0 1 2 (1 / 10) None)
     = Inr ([], [Finite 0, Finite 1])"
proof -
  let ?G = "\<lambda>(x :: 8 word array2) (sg :: real).
              \<lparr>ori = \<lparr>rows = 1, cols = 2, data2 = [0, pi / 2]\<rparr>,
               mag = \<lparr>rows = 1, cols = 2, data2 = [1, 1 :: real]\<rparr>\<rparr>"
  let ?I = "\<lparr>dim0 = 1, dim1 = 2, dim2 = 1, data3 = [10, 20 :: 8 word]\<rparr>"
  have wc: "working_copy [?I] 0 None = ?I"
    by (simp add: working_copy_def copy_and_mask_def np_copy_def)
  have 1: "(0::nat) < length [?I]" by simp
  have 2: "mask_fits None ([?I] ! 0)" by (simp add: mask_fits_def)
  have 3: "(0::int) < 2" by simp
  have 4: "0 < dim0 ([?I] ! 0)" by simp
  have 5: "0 < dim1 ([?I] ! 0)" by simp
  have 6: "gradients_image_shaped ?G (working_copy [?I] 0 None) 1"
    unfolding wc by (simp add: gradients_image_shaped_def image_shaped_def)
  have b: "boundary 2 0 = - pi" "boundary 2 (Suc 0) = 0" "boundary 2 (Suc (Suc 0)) = pi"
    by (simp_all add: boundary_def)
  have cnt: "channel_counts ?G ?I 1 2 (1 / 10) 0 = [0, 1]"
    by (simp add: channel_counts_def channel_threshold_def pixels_in_bin_def in_bin_def b
        upt_rec numeral_2_eq_2)
  from orientation_bins_strict [OF 1 2 3 4 5 6, of "1 / 10"]
  have "snd (get_sift_features ?G [?I] 0 1 2 (1 / 10) None) =
        Inr (normalize_descriptor (concat (map (channel_counts ?G ?I 1 2 (1 / 10)) [0..<dim2 ([?I] ! 0)])))"
    unfolding wc by (rule conjunct2 [THEN conjunct1])
  also have "[0..<dim2 ([?I] ! 0)] = [0]"
    by simp
  also have "concat (map (channel_counts ?G ?I 1 2 (1 / 10)) [0]) = [0, 1]"
    by (simp only: list.map cnt concat.simps append_Nil2)
  also have "normalize_descriptor [0, 1] = ([], [Finite 0, Finite 1])"
    by (simp add: normalize_descriptor_def norm_l2_def norm_l1_def np_divide_def)
  finally show ?thesis .
qed

text \<open>
  C2 as stated counts a pixel of orientation \<open>\<pi>\<close> in the last bin. With two bins and the
  two pixels of orientations \<open>\<pi>\<close> and \<open>-\<pi>/2\<close>, both above the threshold, the counts
  are 1 for the first bin and 0 for the last one.
\<close>
theorem pi_not_in_last_bin:
  "sift_counts
     (\<lambda>x sg. \<lparr>ori = \<lparr>rows = 1, cols = 2, data2 = [pi, - pi / 2]\<rparr>,
               mag = \<lparr>rows = 1, cols = 2, data2 = [1, 1]\<rparr>\<rparr>)
     \<lparr>dim0 = 1, dim1 = 2, dim2 = 1, data3 = [10, 20]\<rparr> 1 2 (1 / 10) = Inr [1, 0] \<and>
   snd (get_sift_features
          (\<lambda>x sg. \<lparr>ori = \<lparr>rows = 1, cols = 2, data2 = [pi, - pi / 2]\<rparr>,
                    mag = \<lparr>rows = 1, cols = 2, data2 = [1, 1]\<rparr>\<rparr>)
          [\<lparr>dim0 = 1, dim1 = 2, dim2 = 1, data3 = [10, 20]\<rparr>] 0 1 2 (1 / 10) None)
     = Inr ([], [Finite 1, Finite 0])"
proof -
  let ?G = "\<lambda>(x :: 8 word array2) (sg :: real).
              \<lparr>ori = \<lparr>rows = 1, cols = 2, data2 = [pi, - pi / 2]\<rparr>,
               mag = \<lparr>rows = 1, cols = 2, data2 = [1, 1 :: real]\<rparr>\<rparr>"
  let ?I = "\<lparr>dim0 = 1, dim1 = 2, dim2 = 1, data3 = [10, 20 :: 8 word]\<rparr>"
  have wc: "working_copy [?I] 0 None = ?I"
    by (simp add: working_copy_def copy_and_mask_def np_copy_def)
  have 1: "(0::nat) < length [?I]" by simp
  have 2: "mask_fits None ([?I] ! 0)" by (simp add: mask_fits_def)
  have 3: "(0::int) < 2" by simp
  have 4: "0 < dim0 ([?I] ! 0)" by simp
  have 5: "0 < dim1 ([?I] ! 0)" by simp
  have 6: "gradients_image_shaped ?G (working_copy [?I] 0 None) 1"
    unfolding wc by (simp add: gradients_image_shaped_def image_shaped_def)
  have b: "boundary 2 0 = - pi" "boundary 2 (Suc 0) = 0" "boundary 2 (Suc (Suc 0)) = pi"
    by (simp_all add: boundary_def)
  have cnt: "channel_counts ?G ?I 1 2 (1 / 10) 0 = [1, 0]"
    by (simp add: channel_counts_def channel_threshold_def pixels_in_bin_def in_bin_def b
        upt_rec numeral_2_eq_2)
  have c1: "[0..<dim2 ([?I] ! 0)] = [0]"
    by simp
  have cc: "concat (map (channel_counts ?G ?I 1 2 (1 / 10)) [0]) = [1, 0]"
    by (simp only: list.map cnt concat.simps append_Nil2)
  have nd: "normalize_descriptor [1, 0] = ([], [Finite 1, Finite 0])"
    by (simp add: normalize_descriptor_def norm_l2_def norm_l1_def np_divide_def)
  from get_sift_features_closed [OF 1 2 3 4 5 6, of "1 / 10"] show ?thesis
    unfolding wc c1 cc nd .
qed

lemma length_concat_upt:
  "(\<And>i. i < c \<Longrightarrow> length (f i) = n) \<Longrightarrow> length (concat (map f [0..<c])) = c * n"
  by (induction c) simp_all

lemma concat_slice:
  assumes len: "\<And>i. i < c \<Longrightarrow> length (f i) = n" and ch: "ch < c"
  shows "take n (drop (ch * n) (concat (map f [0..<c]))) = f ch"
proof -
  from ch have "[0..<c] = [0..<ch] @ ch # [Suc ch..<c]"
    using upt_add_eq_append [of 0 ch "c - ch"] upt_conv_Cons [of ch c] by simp
  then have "concat (map f [0..<c]) =
             concat (map f [0..<ch]) @ f ch @ concat (map f [Suc ch..<c])"
    by simp
  moreover have "length (concat (map f [0..<ch])) = ch * n"
    using len ch by (intro length_concat_upt) simp
  moreover have "length (f ch) = n"
    using len ch by simp
  ultimately show ?thesis by simp
qed

lemma length_channel_counts: "length (channel_counts grad im sigma no_bins th ch) = nat no_bins"
  by (simp add: channel_counts_def)

text \<open>
  C6 (amended). For an image with at least one row and one column in the store, a
  positive number of bins, no mask or a mask of one element on an image of at least three
  channels, and a gradient operator that returns arrays of the shape of the image, the
  call returns a vector of length
  \<open>c * no_bins\<close>; it is the vector of the counts divided by their L1 norm, the counts of
  channel \<open>ch\<close> being the slice that starts at \<open>ch * no_bins\<close>; and when a count is
  not zero, its values are finite and their absolute values sum to 1.
\<close>
theorem descriptor_length_and_norm:
  assumes "img < length s" and "mask_fits msk (s ! img)" and "0 < no_bins"
    and "0 < dim0 (s ! img)" and "0 < dim1 (s ! img)"
    and "gradients_image_shaped grad (working_copy s img msk) sigma"
  shows "\<exists>counts out desc.
           sift_counts grad (working_copy s img msk) sigma no_bins th = Inr counts \<and>
           snd (get_sift_features grad s img sigma no_bins th msk) = Inr (out, desc) \<and>
           length desc = dim2 (s ! img) * nat no_bins \<and>
           desc = map (\<lambda>x. np_divide x (norm_l1 counts)) counts \<and>
           (\<forall>ch<dim2 (s ! img).
              take (nat no_bins) (drop (ch * nat no_bins) counts) =
                channel_counts grad (working_copy s img msk) sigma no_bins th ch) \<and>
           ((\<exists>x\<in>set counts. x \<noteq> 0) \<longrightarrow> (\<exists>ys. desc = map Finite ys \<and> norm_l1 ys = 1))"
proof -
  let ?counts = "concat (map (channel_counts grad (working_copy s img msk) sigma no_bins th)
                           [0..<dim2 (s ! img)])"
  let ?desc = "map (\<lambda>x. np_divide x (norm_l1 ?counts)) ?counts"
  from get_sift_features_closed [OF assms, of th]
  have c: "sift_counts grad (working_copy s img msk) sigma no_bins th = Inr ?counts"
    and d: "snd (get_sift_features grad s img sigma no_bins th msk) = Inr (normalize_descriptor ?counts)"
    by simp_all
  have len: "length ?desc = dim2 (s ! img) * nat no_bins"
    by (simp only: length_map) (rule length_concat_upt, rule length_channel_counts)
  have slices: "\<forall>ch<dim2 (s ! img).
      take (nat no_bins) (drop (ch * nat no_bins) ?counts) =
        channel_counts grad (working_copy s img msk) sigma no_bins th ch"
    by (intro allI impI concat_slice length_channel_counts)
  have l1: "\<exists>ys. ?desc = map Finite ys \<and> norm_l1 ys = 1" if "\<exists>x\<in>set ?counts. x \<noteq> 0"
  proof -
    from that have n: "norm_l1 ?counts \<noteq> 0"
      by (simp only: norm_l1_eq_0_iff) blast
    then have "?desc = map Finite (map (\<lambda>x. x / norm_l1 ?counts) ?counts)"
      by (subst map_np_divide) (simp_all only: map_map comp_def not_False_eq_True)
    moreover from n have "norm_l1 (map (\<lambda>x. x / norm_l1 ?counts) ?counts) = 1"
      by (rule norm_l1_normalized)
    ultimately show ?thesis by blast
  qed
  from d have "snd (get_sift_features grad s img sigma no_bins th msk) =
      Inr (fst (normalize_descriptor ?counts), ?desc)"
    by (simp add: normalize_descriptor_def)
  with c len slices l1 show ?thesis
    by (intro exI [of _ ?counts] exI [of _ "fst (normalize_descriptor ?counts)"] exI [of _ ?desc])
       (simp only: simp_thms, blast)
qed

theorem descriptor_length_and_norm_witness:
  "\<exists>out. snd (get_sift_features
          (\<lambda>x sg. \<lparr>ori = \<lparr>rows = 1, cols = 1, data2 = [pi / 2]\<rparr>,
                    mag = \<lparr>rows = 1, cols = 1, data2 = [1]\<rparr>\<rparr>)
          [\<lparr>dim0 = 1, dim1 = 1, dim2 = 3, data3 = [5, 6, 7]\<rparr>] 0 1 2 (1 / 10)
          (Some \<lparr>rows = 1, cols = 1, data2 = [1]\<rparr>))
     = Inr (out, [Finite 0, Finite (1 / 3), Finite 0, Finite (1 / 3), Finite 0, Finite (1 / 3)])"
proof -
  let ?G = "\<lambda>(x :: 8 word array2) (sg :: real).
              \<lparr>ori = \<lparr>rows = 1, cols = 1, data2 = [pi / 2]\<rparr>,
               mag = \<lparr>rows = 1, cols = 1, data2 = [1 :: real]\<rparr>\<rparr>"
  let ?I = "\<lparr>dim0 = 1, dim1 = 1, dim2 = 3, data3 = [5, 6, 7 :: 8 word]\<rparr>"
  let ?M = "Some \<lparr>rows = 1, cols = 1, data2 = [1 :: 8 word]\<rparr>"
  have 1: "(0::nat) < length [?I]" by simp
  have 2: "mask_fits ?M ([?I] ! 0)" by (simp add: mask_fits_def fits_def)
  have 3: "(0::int) < 2" by simp
  have 4: "0 < dim0 ([?I] ! 0)" by simp
  have 5: "0 < dim1 ([?I] ! 0)" by simp
  from copy_and_mask_ok [OF 1 2] have sh: "same_shape (working_copy [?I] 0 ?M) ?I"
    by simp
  then have 6: "gradients_image_shaped ?G (working_copy [?I] 0 ?M) 1"
    by (simp add: gradients_image_shaped_def image_shaped_def same_shape_def list_all_iff)
  have b: "boundary 2 0 = - pi" "boundary 2 (Suc 0) = 0" "boundary 2 (Suc (Suc 0)) = pi"
    by (simp_all add: boundary_def)
  have cnt: "channel_counts ?G (working_copy [?I] 0 ?M) 1 2 (1 / 10) ch = [0, 1]" for ch
    using sh
    by (simp add: channel_counts_def channel_threshold_def pixels_in_bin_def in_bin_def b
        same_shape_def upt_rec numeral_2_eq_2)
  have u: "[0..<dim2 ([?I] ! 0)] = [0, Suc 0, Suc (Suc 0)]"
    by (simp add: upt_rec numeral_3_eq_3)
  have cc: "concat (map (channel_counts ?G (working_copy [?I] 0 ?M) 1 2 (1 / 10)) [0, Suc 0, Suc (Suc 0)])
            = [0, 1, 0, 1, 0, 1]"
    by (simp only: list.map cnt concat.simps append_Nil2 append_Cons append_Nil)
  have c: "sift_counts ?G (working_copy [?I] 0 ?M) 1 2 (1 / 10) = Inr [0, 1, 0, 1, 0, 1]"
    using get_sift_features_closed [OF 1 2 3 4 5 6, of "1 / 10"]
    unfolding u cc by (rule conjunct1)
  from descriptor_length_and_norm [OF 1 2 3 4 5 6, of "1 / 10"]
  obtain counts out desc where
    "sift_counts ?G (working_copy [?I] 0 ?M) 1 2 (1 / 10) = Inr counts"
    "snd (get_sift_features ?G [?I] 0 1 2 (1 / 10) ?M) = Inr (out, desc)"
    "desc = map (\<lambda>x. np_divide x (norm_l1 counts)) counts"
    by blast
  with c have "snd (get_sift_features ?G [?I] 0 1 2 (1 / 10) ?M) =
      Inr (out, map (\<lambda>x. np_divide x (norm_l1 [0, 1, 0, 1, 0, 1])) [0, 1, 0, 1, 0, 1])"
    by simp
  then show ?thesis
    by (simp add: norm_l1_def np_divide_def)
qed

text \<open>
  C6 as stated speaks of every image and every bin count: with \<open>no_bins = 0\<close> line 174
  divides by zero, with a mask on an image of one channel line 160 reads channel 1, for
  an image without pixels line 170 takes the maximum of an empty array, and with a mask
  of two elements line 158 has no truth value.
\<close>
theorem descriptor_not_returned:
  "snd (get_sift_features
          (\<lambda>x sg. \<lparr>ori = \<lparr>rows = 1, cols = 1, data2 = [pi / 2]\<rparr>,
                    mag = \<lparr>rows = 1, cols = 1, data2 = [1]\<rparr>\<rparr>)
          [\<lparr>dim0 = 1, dim1 = 1, dim2 = 1, data3 = [5]\<rparr>] 0 1 0 (1 / 10) None)
     = Inl ZeroDivisionError \<and>
   snd (get_sift_features
          (\<lambda>x sg. \<lparr>ori = \<lparr>rows = 1, cols = 1, data2 = [pi / 2]\<rparr>,
                    mag = \<lparr>rows = 1, cols = 1, data2 = [1]\<rparr>\<rparr>)
          [\<lparr>dim0 = 1, dim1 = 1, dim2 = 1, data3 = [5]\<rparr>] 0 1 2 (1 / 10)
          (Some \<lparr>rows = 1, cols = 1, data2 = [1]\<rparr>))
     = Inl IndexError \<and>
   snd (get_sift_features
          (\<lambda>x sg. \<lparr>ori = map_array2 (\<lambda>v. 0) x, mag = map_array2 (\<lambda>v. 1) x\<rparr>)
          [\<lparr>dim0 = 0, dim1 = 0, dim2 = 1, data3 = []\<rparr>] 0 1 2 (1 / 10) None)
     = Inl (ValueError ZeroSizeReduction) \<and>
   snd (get_sift_features
          (\<lambda>x sg. \<lparr>ori = map_array2 (\<lambda>v. 0) x, mag = map_array2 (\<lambda>v. 1) x\<rparr>)
          [\<lparr>dim0 = 1, dim1 = 2, dim2 = 3, data3 = [1, 2, 3, 4, 5, 6]\<rparr>] 0 1 2 (1 / 10)
          (Some \<lparr>rows = 1, cols = 2, data2 = [1, 0]\<rparr>))
     = Inl (ValueError AmbiguousTruthValue)"
  by (simp add: get_sift_features_def copy_and_mask_def np_copy_def sift_counts_def shape3_def
      gradient_and_threshold_def get_channel_def np_max_def get_orientations_def
      broadcast2_def bc_dim_def set_channel_def fits_def map_array2_def not_None_truth_def
      upt_rec numeral_3_eq_3)

text \<open>
  C9. A call leaves every array of the caller's store as it was, the image among them,
  whatever the mask and whether the call returns or raises: the store only grows by the
  copy, which is where the masking writes.
\<close>
theorem caller_image_unchanged:
  "take (length s) (fst (get_sift_features grad s img sigma no_bins th msk)) = s \<and>
   length (fst (get_sift_features grad s img sigma no_bins th msk)) = Suc (length s) \<and>
   (img < length s \<longrightarrow> fst (get_sift_features grad s img sigma no_bins th msk) ! img = s ! img)"
proof -
  let ?s' = "fst (get_sift_features grad s img sigma no_bins th msk)"
  have t: "take (length s) ?s' = s" and l: "length ?s' = Suc (length s)"
    using copy_and_mask_frame [of s img msk] by (simp_all add: fst_get_sift_features)
  have "?s' ! img = s ! img" if "img < length s"
  proof -
    from that have "take (length s) ?s' ! img = ?s' ! img" by simp
    with t show ?thesis by simp
  qed
  with t l show ?thesis by blast
qed

theorem caller_image_unchanged_witness:
  "fst (get_sift_features
          (\<lambda>x sg. \<lparr>ori = \<lparr>rows = 1, cols = 1, data2 = [pi / 2]\<rparr>,
                    mag = \<lparr>rows = 1, cols = 1, data2 = [1]\<rparr>\<rparr>)
          [\<lparr>dim0 = 1, dim1 = 1, dim2 = 3, data3 = [5, 6, 7]\<rparr>] 0 1 2 (1 / 10)
          (Some \<lparr>rows = 1, cols = 1, data2 = [0]\<rparr>)) ! 0
     = \<lparr>dim0 = 1, dim1 = 1, dim2 = 3, data3 = [5, 6, 7]\<rparr> \<and>
   fst (get_sift_features
          (\<lambda>x sg. \<lparr>ori = \<lparr>rows = 1, cols = 1, data2 = [pi / 2]\<rparr>,
                    mag = \<lparr>rows = 1, cols = 1, data2 = [1]\<rparr>\<rparr>)
          [\<lparr>dim0 = 1, dim1 = 1, dim2 = 3, data3 = [5, 6, 7]\<rparr>] 0 1 2 (1 / 10)
          (Some \<lparr>rows = 1, cols = 1, data2 = [0]\<rparr>)) ! 1
     = \<lparr>dim0 = 1, dim1 = 1, dim2 = 3, data3 = [0, 0, 0]\<rparr>"
proof -
  let ?G = "\<lambda>(x :: 8 word array2) (sg :: real).
              \<lparr>ori = \<lparr>rows = 1, cols = 1, data2 = [pi / 2]\<rparr>,
               mag = \<lparr>rows = 1, cols = 1, data2 = [1 :: real]\<rparr>\<rparr>"
  let ?I = "\<lparr>dim0 = 1, dim1 = 1, dim2 = 3, data3 = [5, 6, 7 :: 8 word]\<rparr>"
  let ?M = "Some \<lparr>rows = 1, cols = 1, data2 = [0 :: 8 word]\<rparr>"
  have "fst (get_sift_features ?G [?I] 0 1 2 (1 / 10) ?M) ! 0 = [?I] ! 0"
    using caller_image_unchanged [of "[?I]" ?G 0 1 2 "1 / 10" ?M] by simp
  moreover have "fst (copy_and_mask [?I] 0 ?M) ! 1 = \<lparr>dim0 = 1, dim1 = 1, dim2 = 3, data3 = [0, 0, 0]\<rparr>"
    by code_simp
  ultimately show ?thesis
    by (simp add: fst_get_sift_features)
qed

end
